theory Spec2Isabelle
  imports Main
begin

section \<open>Memory log: class AIChatHistory\<close>

text \<open>
  A message is the dictionary \<^verbatim>\<open>{"role": role, "content": content}\<close>. The history holds
  the list \<^verbatim>\<open>messages\<close> and the integer \<^verbatim>\<open>max_messages\<close> (a Python \<^verbatim>\<open>int\<close>, so any
  integer can be passed to the constructor).
\<close>

record message =
  role :: string
  content :: string

record AIChatHistory =
  messages :: "message list"
  max_messages :: int

text \<open>\<^verbatim>\<open>AIChatHistory.__init__(max_messages)\<close>: an empty list and the given bound.\<close>

definition new_history :: "int \<Rightarrow> AIChatHistory" where
  "new_history c = \<lparr>messages = [], max_messages = c\<rparr>"

text \<open>
  \<^verbatim>\<open>add_message\<close>: append, then \<^verbatim>\<open>pop(0)\<close> when the length is above the bound. The list
  is never empty at the \<^verbatim>\<open>pop(0)\<close> (it follows the append), so the pop cannot raise and
  \<open>tl\<close> is the list without its first entry.
\<close>

definition add_message :: "AIChatHistory \<Rightarrow> string \<Rightarrow> string \<Rightarrow> AIChatHistory" where
  "add_message h r c =
     (let ms = messages h @ [\<lparr>role = r, content = c\<rparr>]
      in if int (length ms) > max_messages h
         then h\<lparr>messages := tl ms\<rparr>
         else h\<lparr>messages := ms\<rparr>)"

text \<open>
  The Python slice \<^verbatim>\<open>xs[i:]\<close> for an integer \<open>i\<close>: a negative start counts from the
  end and is clipped at 0, a non-negative start is clipped at the length.
\<close>

definition slice_from :: "'a list \<Rightarrow> int \<Rightarrow> 'a list" where
  "slice_from xs i =
     (let n = int (length xs);
          s = (if i < 0 then max (n + i) 0 else min i n)
      in drop (nat s) xs)"

text \<open>\<^verbatim>\<open>get_context(last_n)\<close> is \<^verbatim>\<open>self.messages[-last_n:]\<close>; it returns a list and assigns nothing.\<close>

definition get_context :: "AIChatHistory \<Rightarrow> int \<Rightarrow> message list" where
  "get_context h last_n = slice_from (messages h) (- last_n)"

text \<open>A sequence of \<^verbatim>\<open>add_message(role, content)\<close> calls, in order.\<close>

fun add_message_calls :: "AIChatHistory \<Rightarrow> (string \<times> string) list \<Rightarrow> AIChatHistory" where
  "add_message_calls h [] = h"
| "add_message_calls h ((r, c) # cs) = add_message_calls (add_message h r c) cs"

definition as_message :: "string \<times> string \<Rightarrow> message" where
  "as_message rc = \<lparr>role = fst rc, content = snd rc\<rparr>"

section \<open>Action dispatch: BaseAgent.execute_action and BaseAgent.map_parameters\<close>

text \<open>
  Exceptions by the classes the \<^verbatim>\<open>except\<close> clauses of the source tell apart:
  \<^verbatim>\<open>TypeError\<close>, other subclasses of \<^verbatim>\<open>Exception\<close> (\<^verbatim>\<open>IndexError\<close> is named because
  \<^verbatim>\<open>act\<close> can raise it), and exceptions outside \<^verbatim>\<open>Exception\<close> such as
  \<^verbatim>\<open>KeyboardInterrupt\<close>. Each carries the text that \<^verbatim>\<open>str(e)\<close> gives.
\<close>

datatype exn =
    TypeError string
  | IndexError string
  | Exception string
  | BaseException string

fun is_Exception :: "exn \<Rightarrow> bool" where
  "is_Exception (BaseException m) = False"
| "is_Exception e = True"

fun exn_text :: "exn \<Rightarrow> string" where
  "exn_text (TypeError m) = m"
| "exn_text (IndexError m) = m"
| "exn_text (Exception m) = m"
| "exn_text (BaseException m) = m"

text \<open>The test of the clause \<^verbatim>\<open>except TypeError\<close>.\<close>

fun is_TypeError :: "exn \<Rightarrow> bool" where
  "is_TypeError (TypeError m) = True"
| "is_TypeError e = False"

text \<open>
  A dictionary with string keys (\<^verbatim>\<open>params\<close>, the \<^verbatim>\<open>arguments\<close> of a tool call) is a list
  of key/value pairs in insertion order. \<open>dict_set\<close> is the assignment \<^verbatim>\<open>d[k] = v\<close>.
\<close>

type_synonym 'v kwargs = "(string \<times> 'v) list"

fun dict_set :: "('k \<times> 'v) list \<Rightarrow> 'k \<Rightarrow> 'v \<Rightarrow> ('k \<times> 'v) list" where
  "dict_set [] k v = [(k, v)]"
| "dict_set ((k', v') # d) k v = (if k' = k then (k, v) # d else (k', v') # dict_set d k v)"

text \<open>
  A handler is a bound method with required named parameters only (every handler of the
  source is). \<open>params_of\<close> are the parameter names after \<^verbatim>\<open>self\<close>, \<open>body\<close> is the
  body of the method run on the values bound to them, in that order, and \<open>arg_error\<close> is the text
  of the \<^verbatim>\<open>TypeError\<close> that the interpreter raises when the call \<^verbatim>\<open>f(**params)\<close> does not
  bind. The body returns a string or raises, and may change the state \<open>'w\<close> either way.
\<close>

record ('v, 'w) handler =
  params_of :: "string list"
  arg_error :: "'v kwargs \<Rightarrow> string"
  body :: "'v list \<Rightarrow> 'w \<Rightarrow> (exn + string) \<times> 'w"

text \<open>
  Binding \<^verbatim>\<open>**params\<close> to the signature: it fails on a keyword that is no parameter and on
  a parameter without a value.
\<close>

definition bind :: "string list \<Rightarrow> 'v kwargs \<Rightarrow> 'v list option" where
  "bind ps params =
     (if list_all (\<lambda>k. k \<in> set ps) (map fst params)
      then those (map (map_of params) ps)
      else None)"

definition call :: "('v, 'w) handler \<Rightarrow> 'v kwargs \<Rightarrow> 'w \<Rightarrow> (exn + string) \<times> 'w" where
  "call h params w =
     (case bind (params_of h) params of
        Some args \<Rightarrow> body h args w
      | None \<Rightarrow> (Inl (TypeError (arg_error h params)), w))"

text \<open>The literal \<^verbatim>\<open>mappings\<close> of \<^verbatim>\<open>map_parameters\<close>.\<close>

definition mappings :: "(string \<times> (string \<times> string) list) list" where
  "mappings =
     [(''conduct_market_research'', [(''company_name'', ''business_idea'')]),
      (''analyze_data'', [(''research_topic'', ''topic'')]),
      (''review_code'', [(''existing_code'', ''feature_name'')]),
      (''report_findings'', [(''message'', ''findings'')])]"

text \<open>
  \<^verbatim>\<open>{expected_params.get(k, k): v for k, v in params.items() if k in expected_params}\<close>:
  the entries of \<open>params\<close> whose key is in the table entry, in order, each stored under
  the renamed key.
\<close>

definition rename_params :: "(string \<times> string) list \<Rightarrow> 'v kwargs \<Rightarrow> 'v kwargs" where
  "rename_params expected_params params =
     foldl (\<lambda>d (k, v). dict_set d (case map_of expected_params k of Some k' \<Rightarrow> k' | None \<Rightarrow> k) v) []
       (filter (\<lambda>(k, v). map_of expected_params k \<noteq> None) params)"

text \<open>
  The body of \<^verbatim>\<open>map_parameters\<close> for a table \<open>table\<close> in the place of the literal, and
  \<^verbatim>\<open>map_parameters\<close> itself, which is that body on \<open>mappings\<close>.
\<close>

definition map_parameters_with ::
  "(string \<times> (string \<times> string) list) list \<Rightarrow> string \<Rightarrow> 'v kwargs \<Rightarrow> 'v kwargs option"
where
  "map_parameters_with table action params =
     (case map_of table action of
        Some expected_params \<Rightarrow>
          (let mapped = rename_params expected_params params
           in if mapped \<noteq> [] then Some mapped else None)
      | None \<Rightarrow> None)"

definition map_parameters :: "string \<Rightarrow> 'v kwargs \<Rightarrow> 'v kwargs option" where
  "map_parameters action params = map_parameters_with mappings action params"

text \<open>
  What \<^verbatim>\<open>execute_action\<close> did, in order: each call of the handler with the dictionary
  passed, and each call of \<^verbatim>\<open>map_parameters\<close>. Writes to the logger are left out.
\<close>

datatype 'v event = Called string "'v kwargs" | Consulted string

definition quoted :: "string \<Rightarrow> string" where
  "quoted s = [CHR 0x27] @ s @ [CHR 0x27]"

text \<open>
  \<^verbatim>\<open>execute_action(action, params)\<close> for the action map \<open>action_map\<close> (the result of
  \<^verbatim>\<open>get_action_map()\<close>), with the table that its call of \<^verbatim>\<open>map_parameters\<close> reads as
  \<open>table\<close>. The result is the returned string, or the exception that leaves the call,
  with the state after it and the events. \<^verbatim>\<open>if action_func:\<close> holds for every bound
  method, so it is the test that the key is in the map.
\<close>

definition execute_action_with ::
  "(string \<times> (string \<times> string) list) list \<Rightarrow> (string \<Rightarrow> ('v, 'w) handler option) \<Rightarrow> string
     \<Rightarrow> 'v kwargs \<Rightarrow> 'w \<Rightarrow> (exn + string) \<times> 'w \<times> 'v event list"
where
  "execute_action_with table action_map action params w =
     (case action_map action of
        None \<Rightarrow> (Inr (''Unknown action: '' @ action), w, [])
      | Some action_func \<Rightarrow>
          (case call action_func params w of
             (Inr r, w1) \<Rightarrow> (Inr r, w1, [Called action params])
           | (Inl (TypeError te), w1) \<Rightarrow>
               (case map_parameters_with table action params of
                  Some mapped_params \<Rightarrow>
                    (case call action_func mapped_params w1 of
                       (Inr r, w2) \<Rightarrow>
                         (Inr r, w2, [Called action params, Consulted action, Called action mapped_params])
                     | (Inl e, w2) \<Rightarrow>
                         (if is_Exception e
                          then Inr (''Error executing action '' @ quoted action @ '': '' @ exn_text e)
                          else Inl e,
                          w2, [Called action params, Consulted action, Called action mapped_params]))
                | None \<Rightarrow>
                    (Inr (''Error executing action '' @ quoted action @ '': '' @ te),
                     w1, [Called action params, Consulted action]))
           | (Inl e, w1) \<Rightarrow>
               (if is_Exception e
                then Inr (''Unexpected error executing action '' @ quoted action @ '': '' @ exn_text e)
                else Inl e,
                w1, [Called action params])))"

text \<open>\<^verbatim>\<open>execute_action\<close> as the source has it: the table is the literal \<open>mappings\<close>.\<close>

definition execute_action ::
  "(string \<Rightarrow> ('v, 'w) handler option) \<Rightarrow> string \<Rightarrow> 'v kwargs \<Rightarrow> 'w \<Rightarrow> (exn + string) \<times> 'w \<times> 'v event list"
where
  "execute_action action_map action params w = execute_action_with mappings action_map action params w"

section \<open>The agent loop: BaseAgent.think, act, learn and run\<close>

text \<open>
  The message that \<^verbatim>\<open>generate_response\<close> returns (a thought) is a dictionary that may hold
  \<^verbatim>\<open>content\<close> and \<^verbatim>\<open>tool_calls\<close>; a tool call may hold \<^verbatim>\<open>function\<close>, which may hold
  \<^verbatim>\<open>name\<close> and \<^verbatim>\<open>arguments\<close>. \<open>None\<close> is a missing key; the empty dictionary that
  \<^verbatim>\<open>generate_response\<close> returns after a failed request has both keys missing.
\<close>

record 'v function_call =
  fn_name :: "string option"
  fn_arguments :: "'v kwargs option"

record 'v thought =
  content_of :: "string option"
  tool_calls :: "'v function_call option list option"

record ('v, 'w) agent =
  agent_name :: string
  get_action_map :: "string \<Rightarrow> ('v, 'w) handler option"

text \<open>The mutable part of an agent: its memory and the attributes of its subclass.\<close>

record 'w agent_state =
  memory :: AIChatHistory
  attrs :: 'w

text \<open>
  \<^verbatim>\<open>json.dumps\<close> belongs to the standard library; the two uses of it are parameters of
  the model: the text of a thought, and the text of the dictionary
  \<^verbatim>\<open>{"thought": thought, "action": action}\<close>.
\<close>

record 'v json =
  dumps_thought :: "'v thought \<Rightarrow> string"
  dumps_experience :: "'v thought \<Rightarrow> string \<Rightarrow> string"

text \<open>
  \<^verbatim>\<open>think\<close>: the context, the prompt, the tools and the system message are computed
  without any assignment and passed to \<^verbatim>\<open>generate_response\<close>, whose result is the argument
  \<open>thought\<close> here; the thought is appended to the memory with role \<^verbatim>\<open>agent\<close>.
\<close>

definition think :: "'v json \<Rightarrow> 'v thought \<Rightarrow> 'w agent_state \<Rightarrow> 'v thought \<times> 'w agent_state" where
  "think js thought st =
     (thought, st\<lparr>memory := add_message (memory st) ''agent'' (dumps_thought js thought)\<rparr>)"

text \<open>
  \<^verbatim>\<open>act\<close>: with the key \<^verbatim>\<open>tool_calls\<close> present, element 0 of the list is taken, which raises
  \<^verbatim>\<open>IndexError\<close> on an empty list; the missing keys below it have the defaults of the
  \<^verbatim>\<open>get\<close> calls. The result is appended to the memory with role \<^verbatim>\<open>environment\<close>.
\<close>

definition act ::
  "('v, 'w) agent \<Rightarrow> 'v thought \<Rightarrow> 'w agent_state \<Rightarrow> (exn + string) \<times> 'w agent_state"
where
  "act ag action st =
     (let record_result = (\<lambda>result w.
            (Inr result,
             \<lparr>memory = add_message (memory st) ''environment'' (''Action result: '' @ result),
              attrs = w\<rparr>))
      in case tool_calls action of
           Some calls \<Rightarrow>
             (case calls of
                [] \<Rightarrow> (Inl (IndexError ''list index out of range''), st)
              | tc # _ \<Rightarrow>
                  (let tool_call = (case tc of Some f \<Rightarrow> f
                                     | None \<Rightarrow> \<lparr>fn_name = None, fn_arguments = None\<rparr>);
                       nm = (case fn_name tool_call of Some n \<Rightarrow> n | None \<Rightarrow> []);
                       args = (case fn_arguments tool_call of Some a \<Rightarrow> a | None \<Rightarrow> [])
                   in case execute_action (get_action_map ag) nm args (attrs st) of
                        (Inr result, w, evs) \<Rightarrow> record_result result w
                      | (Inl e, w, evs) \<Rightarrow> (Inl e, st\<lparr>attrs := w\<rparr>)))
         | None \<Rightarrow>
             record_result
               (''No actionable instruction found in: ''
                  @ (case content_of action of Some c \<Rightarrow> c | None \<Rightarrow> []))
               (attrs st))"

definition learn :: "'v json \<Rightarrow> 'v thought \<Rightarrow> string \<Rightarrow> 'w agent_state \<Rightarrow> 'w agent_state" where
  "learn js thought action st =
     st\<lparr>memory := add_message (memory st) ''experience'' (dumps_experience js thought action)\<rparr>"

text \<open>
  \<^verbatim>\<open>run(max_iterations)\<close>: the body of the \<^verbatim>\<open>for\<close> loop, \<open>n\<close> more times, from iteration
  \<open>i\<close>. \<open>gen i\<close> is what \<^verbatim>\<open>generate_response\<close> returns to the \<^verbatim>\<open>think\<close> of iteration
  \<open>i\<close>. An exception of \<^verbatim>\<open>act\<close> leaves the loop and \<^verbatim>\<open>run\<close>. The sleep between
  iterations changes no state.
\<close>

fun run_from ::
  "'v json \<Rightarrow> ('v, 'w) agent \<Rightarrow> (nat \<Rightarrow> 'v thought) \<Rightarrow> nat \<Rightarrow> nat \<Rightarrow> 'w agent_state
     \<Rightarrow> (exn + unit) \<times> 'w agent_state"
where
  "run_from js ag gen i 0 st = (Inr (), st)"
| "run_from js ag gen i (Suc n) st =
     (case think js (gen i) st of
        (thought, st1) \<Rightarrow>
          (case act ag thought st1 of
             (Inl e, st2) \<Rightarrow> (Inl e, st2)
           | (Inr action, st2) \<Rightarrow> run_from js ag gen (Suc i) n (learn js thought action st2)))"

text \<open>\<^verbatim>\<open>range(max_iterations)\<close> is empty for a negative bound.\<close>

definition run ::
  "'v json \<Rightarrow> ('v, 'w) agent \<Rightarrow> (nat \<Rightarrow> 'v thought) \<Rightarrow> int \<Rightarrow> 'w agent_state
     \<Rightarrow> (exn + unit) \<times> 'w agent_state"
where
  "run js ag gen max_iterations st = run_from js ag gen 0 (nat max_iterations) st"

text \<open>The number of messages of a role in a list of messages.\<close>

definition count_role :: "string \<Rightarrow> message list \<Rightarrow> nat" where
  "count_role r ms = length (filter (\<lambda>m. role m = r) ms)"

section \<open>The text of a failed call\<close>

text \<open>
  The interpreter's message for a call of a bound method that does not bind, in the
  wording of CPython 3.10 to 3.12: the first keyword that is no parameter (\<^verbatim>\<open>self\<close> is
  bound already), else the parameters without a value.
\<close>

fun show_nat :: "nat \<Rightarrow> string" where
  "show_nat n =
     (if n < 10 then [char_of (48 + n)]
      else show_nat (n div 10) @ [char_of (48 + n mod 10)])"

fun and_names :: "string list \<Rightarrow> string" where
  "and_names [] = []"
| "and_names [a] = ''and '' @ quoted a"
| "and_names (a # b # r) = quoted a @ '', '' @ and_names (b # r)"

fun name_list :: "string list \<Rightarrow> string" where
  "name_list [] = []"
| "name_list [a] = quoted a"
| "name_list [a, b] = quoted a @ '' and '' @ quoted b"
| "name_list xs = and_names xs"

definition py_arg_error :: "string \<Rightarrow> string list \<Rightarrow> 'v kwargs \<Rightarrow> string" where
  "py_arg_error qualname ps params =
     (case filter (\<lambda>k. k \<notin> set ps) (map fst params) of
        k # _ \<Rightarrow>
          (if k = ''self''
           then qualname @ ''() got multiple values for argument '' @ quoted k
           else qualname @ ''() got an unexpected keyword argument '' @ quoted k)
      | [] \<Rightarrow>
          (let missing = filter (\<lambda>p. map_of params p = None) ps
           in qualname @ ''() missing '' @ show_nat (length missing)
                @ '' required positional argument'' @ (if length missing = 1 then [] else ''s'')
                @ '': '' @ name_list missing))"

text \<open>A bound method as a handler: its qualified name, its parameters and its body.\<close>

definition bound_method :: "string \<Rightarrow> string list \<Rightarrow> ('v list \<Rightarrow> 'w \<Rightarrow> (exn + string) \<times> 'w) \<Rightarrow> ('v, 'w) handler" where
  "bound_method qualname ps f = \<lparr>params_of = ps, arg_error = py_arg_error qualname ps, body = f\<rparr>"

section \<open>DeveloperAgent.write_code\<close>

text \<open>
  Argument values are what the JSON of a tool call can hold; strings and lists are
  enough here. A string is hashable, a list is not.
\<close>

datatype pyval = Str string | Lst "pyval list"

type_synonym codebase = "(string \<times> pyval) list"

text \<open>
  \<^verbatim>\<open>write_code(feature_name, code)\<close>: \<^verbatim>\<open>self.codebase[feature_name] = code\<close> raises
  \<^verbatim>\<open>TypeError\<close> for an unhashable key, before anything is stored. The last equation is
  never used by \<open>call\<close>, which passes exactly two values.
\<close>

fun write_code :: "pyval list \<Rightarrow> codebase \<Rightarrow> (exn + string) \<times> codebase" where
  "write_code [Str feature_name, code] cb =
     (Inr (''Code written for '' @ feature_name @ ''.''), dict_set cb feature_name code)"
| "write_code [Lst xs, code] cb = (Inl (TypeError (''unhashable type: '' @ quoted ''list'')), cb)"
| "write_code args cb = (Inl (TypeError []), cb)"

definition write_code_method :: "(pyval, codebase) handler" where
  "write_code_method =
     bound_method ''DeveloperAgent.write_code'' [''feature_name'', ''code''] write_code"

section \<open>EntrepreneurAgent\<close>

record entrepreneur =
  business_idea :: string
  business_plan :: "(string \<times> string) list"
  market_research :: "(string \<times> string) list"
  financial_projections :: "(string \<times> string) list"
  product_development :: "(string \<times> string) list"
  marketing_strategy :: "(string \<times> string) list"

text \<open>
  The five handlers. None of them reads its arguments: each assigns a literal dictionary
  to one attribute and returns a fixed string.
\<close>

definition develop_business_plan :: "'v list \<Rightarrow> entrepreneur \<Rightarrow> (exn + string) \<times> entrepreneur" where
  "develop_business_plan args e =
     (Inr ''Business plan developed and updated.'',
      e\<lparr>business_plan :=
         [(''executive_summary'', ''AI-powered personal finance app revolutionizing money management''),
          (''company_description'', ''FinGenius: Empowering individuals with AI-driven financial insights''),
          (''market_analysis'', ''Growing demand for personalized financial management solutions''),
          (''organization_management'', ''Lean team of finance experts and AI engineers''),
          (''product_line'', ''AI-powered budgeting, investment advice, and financial forecasting''),
          (''marketing_sales'', ''Digital-first approach with focus on mobile app stores and financial forums''),
          (''funding_request'', ''Seeking $2M seed funding for development and initial marketing''),
          (''financial_projections'', ''Projected break-even in 18 months with 100K active users''),
          (''appendix'', ''Detailed technical specifications and market research data'')]\<rparr>)"

definition conduct_market_research :: "'v list \<Rightarrow> entrepreneur \<Rightarrow> (exn + string) \<times> entrepreneur" where
  "conduct_market_research args e =
     (Inr ''Market research conducted and updated.'',
      e\<lparr>market_research :=
         [(''target_market'', ''Millennials and Gen Z individuals seeking financial guidance''),
          (''market_size'', ''Estimated $50 billion global personal finance app market by 2028''),
          (''customer_segments'', ''Budget-conscious young professionals, gig economy workers, first-time investors''),
          (''competitors'', ''Traditional banks'' @ [CHR 0x27] @ '' apps, robo-advisors, and established fintech players''),
          (''market_trends'', ''Increasing demand for AI-powered financial advice and automation''),
          (''swot_analysis'', ''Strengths: AI expertise; Weaknesses: New entrant; Opportunities: Untapped AI potential in finance; Threats: Regulatory challenges'')]\<rparr>)"

definition create_financial_projections :: "'v list \<Rightarrow> entrepreneur \<Rightarrow> (exn + string) \<times> entrepreneur" where
  "create_financial_projections args e =
     (Inr ''Financial projections created and updated.'',
      e\<lparr>financial_projections :=
         [(''startup_costs'', ''$500,000 for initial development and launch''),
          (''revenue_projections'', ''Year 1: $1M, Year 2: $3M, Year 3: $8M''),
          (''expense_projections'', ''Year 1: $1.5M, Year 2: $2.5M, Year 3: $5M''),
          (''cash_flow_statement'', ''Positive cash flow expected by Q4 of Year 2''),
          (''break_even_analysis'', ''Break-even point: 100,000 paid subscribers''),
          (''funding_requirements'', ''$2M seed funding needed for 18 months runway'')]\<rparr>)"

definition plan_product_development :: "'v list \<Rightarrow> entrepreneur \<Rightarrow> (exn + string) \<times> entrepreneur" where
  "plan_product_development args e =
     (Inr ''Product development plan created and updated.'',
      e\<lparr>product_development :=
         [(''product_description'', ''AI-powered personal finance app with predictive budgeting and investment advice''),
          (''development_stages'', ''1. MVP, 2. Beta testing, 3. Public launch, 4. Feature expansion''),
          (''resources_needed'', ''AI engineers, mobile developers, UX designers, financial experts''),
          (''timeline'', ''6 months to MVP, 3 months beta, public launch in 10 months''),
          (''testing_strategy'', ''Closed beta with 1000 users, focus on AI accuracy and user experience''),
          (''intellectual_property'', ''Patent pending on AI financial forecasting algorithm'')]\<rparr>)"

definition design_marketing_strategy :: "'v list \<Rightarrow> entrepreneur \<Rightarrow> (exn + string) \<times> entrepreneur" where
  "design_marketing_strategy args e =
     (Inr ''Marketing strategy designed and updated.'',
      e\<lparr>marketing_strategy :=
         [(''brand_positioning'', ''Your AI-powered financial companion for a smarter future''),
          (''target_audience'', ''Tech-savvy millennials and Gen Z interested in financial growth''),
          (''marketing_channels'', ''Social media, financial blogs, podcast sponsorships, app store optimization''),
          (''content_strategy'', ''Educational content on personal finance, AI technology in finance''),
          (''social_media_strategy'', ''Influencer partnerships, viral challenges on money-saving tips''),
          (''budget_allocation'', ''60% digital ads, 20% content creation, 20% influencer partnerships''),
          (''kpis'', ''App downloads, user retention rate, average user savings increase'')]\<rparr>)"

text \<open>\<^verbatim>\<open>EntrepreneurAgent.get_action_map\<close>.\<close>

definition entrepreneur_action_map :: "string \<Rightarrow> ('v, entrepreneur) handler option" where
  "entrepreneur_action_map =
     map_of
       [(''develop_business_plan'',
           bound_method ''EntrepreneurAgent.develop_business_plan'' [] develop_business_plan),
        (''conduct_market_research'',
           bound_method ''EntrepreneurAgent.conduct_market_research'' [''business_idea'']
             conduct_market_research),
        (''create_financial_projections'',
           bound_method ''EntrepreneurAgent.create_financial_projections'' [] create_financial_projections),
        (''plan_product_development'',
           bound_method ''EntrepreneurAgent.plan_product_development'' [] plan_product_development),
        (''design_marketing_strategy'',
           bound_method ''EntrepreneurAgent.design_marketing_strategy'' [] design_marketing_strategy)]"

text \<open>\<^verbatim>\<open>EntrepreneurAgent(name, business_idea)\<close>: the agent and its state after construction.\<close>

definition EntrepreneurAgent :: "string \<Rightarrow> ('v, entrepreneur) agent" where
  "EntrepreneurAgent nm = \<lparr>agent_name = nm, get_action_map = entrepreneur_action_map\<rparr>"

definition entrepreneur_init :: "string \<Rightarrow> entrepreneur agent_state" where
  "entrepreneur_init idea =
     \<lparr>memory = new_history 100,
      attrs = \<lparr>business_idea = idea, business_plan = [], market_research = [],
                financial_projections = [], product_development = [], marketing_strategy = []\<rparr>\<rparr>"

section \<open>Properties of the memory log\<close>

lemma max_messages_add_message [simp]: "max_messages (add_message h r c) = max_messages h"
  by (simp add: add_message_def Let_def)

lemma max_messages_add_message_calls [simp]:
  "max_messages (add_message_calls h cs) = max_messages h"
  by (induction h cs rule: add_message_calls.induct) simp_all

lemma add_message_within_bound:
  "int (length (messages h)) \<le> max_messages h \<Longrightarrow>
   int (length (messages (add_message h r c))) \<le> max_messages h"
  by (simp add: add_message_def Let_def)

text \<open>
  Starting from a log that holds the last \<open>max_messages\<close> entries of a sequence \<open>pre\<close>,
  the log after further calls holds the last \<open>max_messages\<close> entries of the longer sequence.
\<close>

lemma tl_drop_snoc:
  assumes "k \<le> length pre"
  shows "tl (drop (length pre - k) pre @ [m]) = drop (length (pre @ [m]) - k) (pre @ [m])"
proof -
  let ?d = "length pre - k"
  have "drop ?d pre @ [m] = drop ?d (pre @ [m])"
    by simp
  then have "tl (drop ?d pre @ [m]) = tl (drop ?d (pre @ [m]))"
    by (rule arg_cong)
  also have "\<dots> = drop (Suc ?d) (pre @ [m])"
    by (simp only: drop_Suc tl_drop)
  also have "Suc ?d = length (pre @ [m]) - k"
    using assms by simp
  finally show ?thesis .
qed

lemma add_message_suffix:
  assumes "0 \<le> max_messages h"
    and "messages h = drop (length pre - nat (max_messages h)) pre"
  shows "messages (add_message h r c) =
         drop (length (pre @ [as_message (r, c)]) - nat (max_messages h)) (pre @ [as_message (r, c)])"
proof (cases "length pre < nat (max_messages h)")
  case True
  then have "\<not> max_messages h < 1 + int (length pre)"
    by linarith
  with True assms show ?thesis
    by (simp add: add_message_def Let_def as_message_def)
next
  case False
  then have le: "nat (max_messages h) \<le> length pre"
    by simp
  then have "length (messages h) = nat (max_messages h)"
    using assms(2) by simp
  then have "int (length (messages h @ [as_message (r, c)])) > max_messages h"
    using assms(1) by simp
  then have "messages (add_message h r c) = tl (messages h @ [as_message (r, c)])"
    by (simp add: add_message_def Let_def as_message_def)
  also have "\<dots> = tl (drop (length pre - nat (max_messages h)) pre @ [as_message (r, c)])"
    by (simp only: assms(2))
  finally show ?thesis
    by (simp only: tl_drop_snoc [OF le])
qed

lemma add_message_calls_suffix:
  "0 \<le> max_messages h \<Longrightarrow>
   messages h = drop (length pre - nat (max_messages h)) pre \<Longrightarrow>
   messages (add_message_calls h cs) =
     drop (length (pre @ map as_message cs) - nat (max_messages h)) (pre @ map as_message cs)"
proof (induction h cs arbitrary: pre rule: add_message_calls.induct)
  case (1 h)
  then show ?case by simp
next
  case (2 h r c cs)
  have "messages (add_message_calls (add_message h r c) cs) =
        drop (length ((pre @ [as_message (r, c)]) @ map as_message cs) - nat (max_messages (add_message h r c)))
             ((pre @ [as_message (r, c)]) @ map as_message cs)"
    by (rule "2.IH") (use "2.prems" add_message_suffix in simp_all)
  then show ?case by simp
qed

lemma add_message_calls_snoc:
  "add_message_calls h (cs @ [(r, c)]) = add_message (add_message_calls h cs) r c"
  by (induction h cs rule: add_message_calls.induct) simp_all

lemma new_history_suffix:
  assumes "0 \<le> c"
  shows "messages (add_message_calls (new_history c) cs) = drop (length cs - nat c) (map as_message cs)"
  using add_message_calls_suffix [of "new_history c" "[]" cs] assms
  by (simp add: new_history_def)

lemma new_history_bound:
  assumes "0 \<le> c"
  shows "int (length (messages (add_message_calls (new_history c) cs))) \<le> c"
proof -
  have "length (messages (add_message_calls (new_history c) cs)) \<le> nat c"
    by (simp add: new_history_suffix [OF assms])
  with assms show ?thesis by linarith
qed

lemma new_history_evicts_oldest:
  assumes "0 \<le> c"
    and "c < int (length (messages (add_message_calls (new_history c) cs))) + 1"
  shows "messages (add_message_calls (new_history c) cs) @ [as_message (r, x)] =
           map as_message (cs @ [(r, x)]) ! (length cs - nat c)
             # messages (add_message (add_message_calls (new_history c) cs) r x)"
proof -
  let ?ms = "map as_message cs"
  let ?all = "map as_message (cs @ [(r, x)])"
  let ?d = "length cs - nat c"
  have full: "nat c \<le> length cs"
    using assms by (simp add: new_history_suffix [OF assms(1)])
  have "messages (add_message_calls (new_history c) cs) @ [as_message (r, x)] = drop ?d ?all"
    by (simp add: new_history_suffix [OF assms(1)])
  also have "\<dots> = ?all ! ?d # drop (Suc ?d) ?all"
    by (rule Cons_nth_drop_Suc [symmetric]) simp
  also have "drop (Suc ?d) ?all = messages (add_message_calls (new_history c) (cs @ [(r, x)]))"
    using full by (simp only: new_history_suffix [OF assms(1)] length_append) (simp add: Suc_diff_le)
  finally show ?thesis
    by (simp only: add_message_calls_snoc)
qed

text \<open>
  Claim C1. A log created with a capacity \<open>c\<close> (a capacity is a size, \<open>0 \<le> c\<close>) never
  holds more than \<open>c\<close> messages, after any number \<open>n\<close> of the calls of any sequence of
  \<^verbatim>\<open>add_message\<close> calls. After the whole sequence it holds the last \<open>c\<close> messages appended,
  in the order of the calls. When one more append takes the length above \<open>c\<close>, the entry
  removed is the oldest one held (the one appended first among them), and the others,
  with the new one at the end, stay in order.
\<close>

theorem memory_log_bounded_fifo:
  assumes "0 \<le> c"
  shows "int (length (messages (add_message_calls (new_history c) (take n cs)))) \<le> c \<and>
         messages (add_message_calls (new_history c) cs) = drop (length cs - nat c) (map as_message cs) \<and>
         (c < int (length (messages (add_message_calls (new_history c) cs))) + 1 \<longrightarrow>
            messages (add_message_calls (new_history c) cs) @ [as_message (r, x)] =
              map as_message (cs @ [(r, x)]) ! (length cs - nat c)
                # messages (add_message (add_message_calls (new_history c) cs) r x))"
  using new_history_bound [OF assms] new_history_suffix [OF assms] new_history_evicts_oldest [OF assms]
  by blast

theorem memory_log_bounded_fifo_witness:
  "(0::int) \<le> 3 \<and>
   messages (add_message_calls (new_history 3) [(''agent'', ''A''), (''agent'', ''B''), (''agent'', ''C'')])
     @ [as_message (''agent'', ''D'')] =
   \<lparr>role = ''agent'', content = ''A''\<rparr>
     # messages (add_message (add_message_calls (new_history 3)
          [(''agent'', ''A''), (''agent'', ''B''), (''agent'', ''C'')]) ''agent'' ''D'') \<and>
   messages (add_message (add_message_calls (new_history 3)
          [(''agent'', ''A''), (''agent'', ''B''), (''agent'', ''C'')]) ''agent'' ''D'') =
   [\<lparr>role = ''agent'', content = ''B''\<rparr>, \<lparr>role = ''agent'', content = ''C''\<rparr>,
    \<lparr>role = ''agent'', content = ''D''\<rparr>]"
  using memory_log_bounded_fifo [of 3 3 "[(''agent'', ''A''), (''agent'', ''B''), (''agent'', ''C'')]" "''agent''" "''D''"]
  by (simp add: new_history_def add_message_def as_message_def)

text \<open>
  For a positive \<open>n\<close>, \<^verbatim>\<open>get_context(n)\<close> is the last \<open>n\<close> messages, fewer when the log is
  shorter.
\<close>

lemma get_context_positive:
  assumes "0 < n"
  shows "get_context h n = drop (length (messages h) - nat n) (messages h) \<and>
         length (get_context h n) = min (nat n) (length (messages h))"
  using assms by (auto simp: get_context_def slice_from_def Let_def nat_diff_distrib' max_def min_def)

text \<open>
  Claim C2, at \<open>n = 0\<close>. On a log that holds one message, \<^verbatim>\<open>get_context(0)\<close> returns that
  message: one entry, where \<open>min(n, log length)\<close> is 0.
\<close>

theorem get_context_zero_returns_all:
  "get_context (add_message (new_history 100) ''agent'' ''A'') 0 = [\<lparr>role = ''agent'', content = ''A''\<rparr>] \<and>
   length (get_context (add_message (new_history 100) ''agent'' ''A'') 0) \<noteq>
     min (nat 0) (length (messages (add_message (new_history 100) ''agent'' ''A'')))"
  by (simp add: get_context_def slice_from_def new_history_def add_message_def)

text \<open>
  Claim C10. For every log, \<^verbatim>\<open>get_context(0)\<close> returns the whole list of messages, in
  order: the slice \<^verbatim>\<open>messages[-0:]\<close> is \<^verbatim>\<open>messages[0:]\<close>.
\<close>

theorem get_context_zero_is_whole_log: "get_context h 0 = messages h"
  by (simp add: get_context_def slice_from_def)

section \<open>Properties of the dispatcher and of the agent loop\<close>

lemma map_parameters_unfold:
  "map_parameters action params =
     (case map_of mappings action of
        Some expected_params \<Rightarrow>
          (let mapped = rename_params expected_params params
           in if mapped \<noteq> [] then Some mapped else None)
      | None \<Rightarrow> None)"
  by (simp add: map_parameters_def map_parameters_with_def)

lemma execute_action_unfold:
  "execute_action action_map action params w =
     (case action_map action of
        None \<Rightarrow> (Inr (''Unknown action: '' @ action), w, [])
      | Some action_func \<Rightarrow>
          (case call action_func params w of
             (Inr r, w1) \<Rightarrow> (Inr r, w1, [Called action params])
           | (Inl (TypeError te), w1) \<Rightarrow>
               (case map_parameters action params of
                  Some mapped_params \<Rightarrow>
                    (case call action_func mapped_params w1 of
                       (Inr r, w2) \<Rightarrow>
                         (Inr r, w2, [Called action params, Consulted action, Called action mapped_params])
                     | (Inl e, w2) \<Rightarrow>
                         (if is_Exception e
                          then Inr (''Error executing action '' @ quoted action @ '': '' @ exn_text e)
                          else Inl e,
                          w2, [Called action params, Consulted action, Called action mapped_params]))
                | None \<Rightarrow>
                    (Inr (''Error executing action '' @ quoted action @ '': '' @ te),
                     w1, [Called action params, Consulted action]))
           | (Inl e, w1) \<Rightarrow>
               (if is_Exception e
                then Inr (''Unexpected error executing action '' @ quoted action @ '': '' @ exn_text e)
                else Inl e,
                w1, [Called action params])))"
  unfolding execute_action_def execute_action_with_def map_parameters_def
  by (rule refl)

lemma call_bound:
  "bind (params_of h) params = Some args \<Longrightarrow> call h params w = body h args w"
  by (simp add: call_def)

lemma call_unbound:
  "bind (params_of h) params = None \<Longrightarrow> call h params w = (Inl (TypeError (arg_error h params)), w)"
  by (simp add: call_def)

text \<open>
  Claim C5. For every agent, every action name that is not a key of its action map and
  every parameter dictionary, \<^verbatim>\<open>execute_action\<close> returns the string \<^verbatim>\<open>Unknown action: \<close>
  followed by the name; it raises nothing, calls no handler and leaves the state as it was.
\<close>

theorem unknown_action_result:
  "get_action_map ag action = None \<Longrightarrow>
   execute_action (get_action_map ag) action params w = (Inr (''Unknown action: '' @ action), w, [])"
  by (simp add: execute_action_unfold)

lemma entrepreneur_no_such_action:
  "entrepreneur_action_map ''nonexistent_action'' = None"
  by (simp add: entrepreneur_action_map_def)

theorem unknown_action_result_witness:
  "get_action_map (EntrepreneurAgent ''EntrepreneurAI'' :: (pyval, entrepreneur) agent)
     ''nonexistent_action'' = None \<and>
   execute_action (get_action_map (EntrepreneurAgent ''EntrepreneurAI'')) ''nonexistent_action''
       ([] :: pyval kwargs) (attrs (entrepreneur_init ''AI-powered personal finance app'')) =
     (Inr ''Unknown action: nonexistent_action'',
      attrs (entrepreneur_init ''AI-powered personal finance app''), [])"
proof -
  have none: "get_action_map (EntrepreneurAgent ''EntrepreneurAI'' :: (pyval, entrepreneur) agent)
                ''nonexistent_action'' = None"
    by (simp add: EntrepreneurAgent_def entrepreneur_no_such_action)
  show ?thesis
    using none unknown_action_result [OF none] by simp
qed

text \<open>
  Claim C6. For an action of the action map and parameters that bind to the signature of
  its handler, when the handler returns \<open>r\<close>, \<^verbatim>\<open>execute_action\<close> returns \<open>r\<close> with the
  state the handler left; the only event is the one call, so \<^verbatim>\<open>map_parameters\<close> is not
  called.
\<close>

theorem matching_call_returns_result:
  "get_action_map ag action = Some h \<Longrightarrow>
   bind (params_of h) params = Some args \<Longrightarrow>
   body h args w = (Inr r, w') \<Longrightarrow>
   execute_action (get_action_map ag) action params w = (Inr r, w', [Called action params])"
  by (simp add: execute_action_unfold call_bound)


lemma entrepreneur_market_research_action:
  "entrepreneur_action_map ''conduct_market_research'' =
     Some (bound_method ''EntrepreneurAgent.conduct_market_research'' [''business_idea'']
             conduct_market_research)"
  by (simp add: entrepreneur_action_map_def)

theorem matching_call_returns_result_witness:
  "get_action_map (EntrepreneurAgent ''EntrepreneurAI'' :: (pyval, entrepreneur) agent)
     ''conduct_market_research'' =
     Some (bound_method ''EntrepreneurAgent.conduct_market_research'' [''business_idea'']
             conduct_market_research) \<and>
   bind [''business_idea''] [(''business_idea'', Str ''AI-powered personal finance app'')] =
     Some [Str ''AI-powered personal finance app''] \<and>
   fst (execute_action (get_action_map (EntrepreneurAgent ''EntrepreneurAI''))
          ''conduct_market_research'' [(''business_idea'', Str ''AI-powered personal finance app'')]
          (attrs (entrepreneur_init ''AI-powered personal finance app''))) =
     Inr ''Market research conducted and updated.'' \<and>
   snd (snd (execute_action (get_action_map (EntrepreneurAgent ''EntrepreneurAI''))
          ''conduct_market_research'' [(''business_idea'', Str ''AI-powered personal finance app'')]
          (attrs (entrepreneur_init ''AI-powered personal finance app'')))) =
     [Called ''conduct_market_research'' [(''business_idea'', Str ''AI-powered personal finance app'')]]"
proof -
  let ?h = "bound_method ''EntrepreneurAgent.conduct_market_research'' [''business_idea'']
              conduct_market_research :: (pyval, entrepreneur) handler"
  let ?params = "[(''business_idea'', Str ''AI-powered personal finance app'')]"
  let ?w = "attrs (entrepreneur_init ''AI-powered personal finance app'')"
  have a: "get_action_map (EntrepreneurAgent ''EntrepreneurAI'' :: (pyval, entrepreneur) agent)
             ''conduct_market_research'' = Some ?h"
    by (simp add: EntrepreneurAgent_def entrepreneur_market_research_action)
  have b: "bind (params_of ?h) ?params = Some [Str ''AI-powered personal finance app'']"
    by (simp add: bind_def bound_method_def)
  have c: "body ?h [Str ''AI-powered personal finance app''] ?w =
             (Inr ''Market research conducted and updated.'',
              snd (conduct_market_research [Str ''AI-powered personal finance app''] ?w))"
    by (simp add: bound_method_def conduct_market_research_def)
  show ?thesis
    using a b matching_call_returns_result [OF a b c] by (simp add: bound_method_def)
qed


lemma set_dict_set: "set (dict_set d k v) \<subseteq> insert (k, v) (set d)"
  by (induction d k v rule: dict_set.induct) auto

lemma set_foldl_dict_set:
  "set (foldl (\<lambda>d (k, v). dict_set d (f k) v) d0 xs) \<subseteq> set d0 \<union> (\<lambda>(k, v). (f k, v)) ` set xs"
proof (induction xs arbitrary: d0)
  case Nil
  then show ?case by simp
next
  case (Cons x xs)
  obtain k v where x: "x = (k, v)" by (cases x)
  have "set (foldl (\<lambda>d (k, v). dict_set d (f k) v) (dict_set d0 (f k) v) xs)
          \<subseteq> set (dict_set d0 (f k) v) \<union> (\<lambda>(k, v). (f k, v)) ` set xs"
    by (rule Cons.IH)
  also have "\<dots> \<subseteq> insert (f k, v) (set d0) \<union> (\<lambda>(k, v). (f k, v)) ` set xs"
    using set_dict_set [of d0 "f k" v] by blast
  finally show ?case
    using x by auto
qed

lemma rename_params_entries:
  assumes "(k', v) \<in> set (rename_params entry params)"
  shows "\<exists>k. map_of entry k = Some k' \<and> (k, v) \<in> set params"
proof -
  let ?f = "\<lambda>k. case map_of entry k of Some k' \<Rightarrow> k' | None \<Rightarrow> k"
  let ?kept = "filter (\<lambda>(k, v). map_of entry k \<noteq> None) params"
  have "(k', v) \<in> (\<lambda>(k, v). (?f k, v)) ` set ?kept"
    using assms set_foldl_dict_set [of ?f "[]" ?kept] by (auto simp: rename_params_def)
  then obtain k where "(k, v) \<in> set ?kept" and "k' = ?f k"
    by auto
  then show ?thesis
    by auto
qed

text \<open>
  Claim C7. When the parameters do not bind to the signature of the handler, the action
  has an entry in \<^verbatim>\<open>mappings\<close>, and the parameters renamed by that entry are not empty,
  then the handler is called a second time, once, with the renamed parameters, and the
  outcome of that call is the result: its string, or the error string when it raises.
  Every parameter of the retry is a supplied parameter whose name is a key of the entry,
  under the name the entry gives; the other supplied parameters are left out.
\<close>

theorem mismatch_retries_once_with_renamed:
  assumes "get_action_map ag action = Some h"
    and "bind (params_of h) params = None"
    and "map_of mappings action = Some entry"
    and "rename_params entry params \<noteq> []"
  shows "execute_action (get_action_map ag) action params w =
           (case call h (rename_params entry params) w of
              (res, w2) \<Rightarrow>
                (case res of
                   Inr r \<Rightarrow> Inr r
                 | Inl e \<Rightarrow>
                     if is_Exception e
                     then Inr (''Error executing action '' @ quoted action @ '': '' @ exn_text e)
                     else Inl e,
                 w2,
                 [Called action params, Consulted action, Called action (rename_params entry params)]))
         \<and> (\<forall>k' v. (k', v) \<in> set (rename_params entry params) \<longrightarrow>
                (\<exists>k. map_of entry k = Some k' \<and> (k, v) \<in> set params))"
proof -
  have "map_parameters action params = Some (rename_params entry params)"
    using assms(3,4) by (simp add: map_parameters_unfold)
  then have "execute_action (get_action_map ag) action params w =
           (case call h (rename_params entry params) w of
              (res, w2) \<Rightarrow>
                (case res of
                   Inr r \<Rightarrow> Inr r
                 | Inl e \<Rightarrow>
                     if is_Exception e
                     then Inr (''Error executing action '' @ quoted action @ '': '' @ exn_text e)
                     else Inl e,
                 w2,
                 [Called action params, Consulted action, Called action (rename_params entry params)]))"
    using assms(1,2)
    by (simp add: execute_action_unfold call_unbound split: prod.splits sum.splits)
  moreover have "\<forall>k' v. (k', v) \<in> set (rename_params entry params) \<longrightarrow>
                (\<exists>k. map_of entry k = Some k' \<and> (k, v) \<in> set params)"
    by (intro allI impI) (rule rename_params_entries)
  ultimately show ?thesis
    by (rule conjI)
qed


theorem mismatch_retries_once_with_renamed_witness:
  "get_action_map (EntrepreneurAgent ''EntrepreneurAI'' :: (pyval, entrepreneur) agent)
     ''conduct_market_research'' =
     Some (bound_method ''EntrepreneurAgent.conduct_market_research'' [''business_idea'']
             conduct_market_research) \<and>
   bind [''business_idea''] [(''company_name'', Str ''FinGenius''), (''sector'', Str ''finance'')] = None \<and>
   map_of mappings ''conduct_market_research'' = Some [(''company_name'', ''business_idea'')] \<and>
   rename_params [(''company_name'', ''business_idea'')]
       [(''company_name'', Str ''FinGenius''), (''sector'', Str ''finance'')] =
     [(''business_idea'', Str ''FinGenius'')] \<and>
   fst (execute_action (get_action_map (EntrepreneurAgent ''EntrepreneurAI''))
          ''conduct_market_research'' [(''company_name'', Str ''FinGenius''), (''sector'', Str ''finance'')]
          (attrs (entrepreneur_init ''AI-powered personal finance app''))) =
     Inr ''Market research conducted and updated.'' \<and>
   snd (snd (execute_action (get_action_map (EntrepreneurAgent ''EntrepreneurAI''))
          ''conduct_market_research'' [(''company_name'', Str ''FinGenius''), (''sector'', Str ''finance'')]
          (attrs (entrepreneur_init ''AI-powered personal finance app'')))) =
     [Called ''conduct_market_research'' [(''company_name'', Str ''FinGenius''), (''sector'', Str ''finance'')],
      Consulted ''conduct_market_research'',
      Called ''conduct_market_research'' [(''business_idea'', Str ''FinGenius'')]]"
proof -
  let ?h = "bound_method ''EntrepreneurAgent.conduct_market_research'' [''business_idea'']
              conduct_market_research :: (pyval, entrepreneur) handler"
  let ?params = "[(''company_name'', Str ''FinGenius''), (''sector'', Str ''finance'')]"
  let ?entry = "[(''company_name'', ''business_idea'')]"
  let ?w = "attrs (entrepreneur_init ''AI-powered personal finance app'')"
  have a: "get_action_map (EntrepreneurAgent ''EntrepreneurAI'' :: (pyval, entrepreneur) agent)
             ''conduct_market_research'' = Some ?h"
    by (simp add: EntrepreneurAgent_def entrepreneur_market_research_action)
  have b: "bind (params_of ?h) ?params = None"
    by (simp add: bind_def bound_method_def)
  have c: "map_of mappings ''conduct_market_research'' = Some ?entry"
    by (simp add: mappings_def)
  have d: "rename_params ?entry ?params = [(''business_idea'', Str ''FinGenius'')]"
    by (simp add: rename_params_def)
  have e: "rename_params ?entry ?params \<noteq> []"
    by (simp add: d)
  have f: "call ?h [(''business_idea'', Str ''FinGenius'')] ?w =
             (Inr ''Market research conducted and updated.'',
              snd (conduct_market_research [Str ''FinGenius''] ?w))"
    by (simp add: call_def bind_def bound_method_def conduct_market_research_def)
  show ?thesis
    using a b c d mismatch_retries_once_with_renamed [OF a b c e, of ?w]
    by (simp add: bound_method_def f [unfolded bound_method_def])
qed

text \<open>
  An exception of class \<^verbatim>\<open>Exception\<close> other than \<^verbatim>\<open>TypeError\<close>, raised by the body of the
  handler on parameters that bind, is reported as \<^verbatim>\<open>Unexpected error executing action\<close>
  with the name and the text of the exception, after one call of the handler and no call
  of \<^verbatim>\<open>map_parameters\<close>.
\<close>

lemma handler_internal_error_result:
  assumes "get_action_map ag action = Some h"
    and "bind (params_of h) params = Some args"
    and "body h args w = (Inl e, w')"
    and "is_Exception e"
    and "\<not> is_TypeError e"
  shows "execute_action (get_action_map ag) action params w =
           (Inr (''Unexpected error executing action '' @ quoted action @ '': '' @ exn_text e),
            w', [Called action params])"
proof -
  have "call h params w = (Inl e, w')"
    using assms(2,3) by (simp add: call_bound)
  then show ?thesis
    using assms(1,4,5) by (cases e) (simp_all add: execute_action_unfold)
qed

text \<open>
  A \<^verbatim>\<open>TypeError\<close> raised by the body of the handler on parameters that bind is caught by
  the clause \<^verbatim>\<open>except TypeError\<close>, like a call that does not bind: \<^verbatim>\<open>map_parameters\<close> is
  called, and the result is the string of the argument-mismatch path or the outcome of a
  retry.
\<close>

lemma internal_TypeError_takes_mismatch_path:
  assumes "get_action_map ag action = Some h"
    and "bind (params_of h) params = Some args"
    and "body h args w = (Inl (TypeError te), w')"
  shows "execute_action (get_action_map ag) action params w =
           (case map_parameters action params of
              None \<Rightarrow>
                (Inr (''Error executing action '' @ quoted action @ '': '' @ te),
                 w', [Called action params, Consulted action])
            | Some mapped_params \<Rightarrow>
                (case call h mapped_params w' of
                   (res, w2) \<Rightarrow>
                     (case res of
                        Inr r \<Rightarrow> Inr r
                      | Inl e \<Rightarrow>
                          if is_Exception e
                          then Inr (''Error executing action '' @ quoted action @ '': '' @ exn_text e)
                          else Inl e,
                      w2,
                      [Called action params, Consulted action, Called action mapped_params])))"
proof -
  have "call h params w = (Inl (TypeError te), w')"
    using assms(2,3) by (simp add: call_bound)
  then show ?thesis
    using assms(1)
    by (simp add: execute_action_unfold split: option.splits prod.splits sum.splits)
qed

text \<open>
  Claim C8, at a \<^verbatim>\<open>TypeError\<close> raised inside the handler. The call
  \<^verbatim>\<open>write_code(feature_name=[], code="y")\<close> binds, and the assignment to the codebase raises
  \<^verbatim>\<open>TypeError\<close> for the unhashable key, inside the handler. \<^verbatim>\<open>execute_action\<close> then calls
  \<^verbatim>\<open>map_parameters\<close> and returns the string of the argument-mismatch path, which is not the
  \<^verbatim>\<open>Unexpected error\<close> string of a failure inside a handler.
\<close>

theorem internal_TypeError_reported_as_mismatch:
  "bind (params_of write_code_method) [(''feature_name'', Lst []), (''code'', Str ''y'')] =
     Some [Lst [], Str ''y''] \<and>
   body write_code_method [Lst [], Str ''y''] [] =
     (Inl (TypeError (''unhashable type: '' @ quoted ''list'')), []) \<and>
   execute_action (map_of [(''write_code'', write_code_method)]) ''write_code''
       [(''feature_name'', Lst []), (''code'', Str ''y'')] [] =
     (Inr (''Error executing action '' @ quoted ''write_code'' @ '': unhashable type: '' @ quoted ''list''),
      [],
      [Called ''write_code'' [(''feature_name'', Lst []), (''code'', Str ''y'')],
       Consulted ''write_code'']) \<and>
   fst (execute_action (map_of [(''write_code'', write_code_method)]) ''write_code''
       [(''feature_name'', Lst []), (''code'', Str ''y'')] []) \<noteq>
     Inr (''Unexpected error executing action '' @ quoted ''write_code'' @ '': unhashable type: ''
            @ quoted ''list'')"
  by (simp add: execute_action_unfold call_def bind_def write_code_method_def bound_method_def
      map_parameters_unfold mappings_def)

lemma write_code_call_mismatch:
  "call write_code_method [(''name'', Str x), (''body'', Str y)] cb =
     (Inl (TypeError (''DeveloperAgent.write_code() got an unexpected keyword argument ''
                        @ quoted ''name'')), cb)"
  by (simp add: call_def bind_def write_code_method_def bound_method_def py_arg_error_def)

lemma write_code_call_bound:
  "call write_code_method [(''feature_name'', Str x), (''code'', Str y)] cb =
     (Inr (''Code written for '' @ x @ ''.''), dict_set cb x (Str y))"
  by (simp add: call_def bind_def write_code_method_def bound_method_def)



text \<open>
  With the literal \<open>mappings\<close> of the source, which has no entry for \<^verbatim>\<open>write_code\<close>, the
  same dispatch is not retried: the result is the error string with the interpreter's
  message and the codebase is unchanged. With the names of the signature the handler runs
  at the first call.
\<close>

lemma write_code_with_source_table:
  assumes "get_action_map ag ''write_code'' = Some write_code_method"
  shows "execute_action (get_action_map ag) ''write_code'' [(''name'', Str x), (''body'', Str y)] cb =
           (Inr (''Error executing action '' @ quoted ''write_code''
                   @ '': DeveloperAgent.write_code() got an unexpected keyword argument ''
                   @ quoted ''name''),
            cb,
            [Called ''write_code'' [(''name'', Str x), (''body'', Str y)], Consulted ''write_code''])
         \<and> execute_action (get_action_map ag) ''write_code''
               [(''feature_name'', Str x), (''code'', Str y)] cb =
           (Inr (''Code written for '' @ x @ ''.''), dict_set cb x (Str y),
            [Called ''write_code'' [(''feature_name'', Str x), (''code'', Str y)]])"
proof -
  have no_entry: "map_parameters ''write_code'' [(''name'', Str x), (''body'', Str y)] = None"
    by (simp add: map_parameters_unfold mappings_def)
  show ?thesis
    using assms
    by (simp add: execute_action_unfold no_entry write_code_call_mismatch write_code_call_bound)
qed

text \<open>
  Claim C3, at a thought whose \<^verbatim>\<open>tool_calls\<close> is the empty list. \<^verbatim>\<open>run(max_iterations=3)\<close>
  ends in the first iteration with the \<^verbatim>\<open>IndexError\<close> of \<^verbatim>\<open>action['tool_calls'][0]\<close>: the
  memory has received the thought and nothing else, and for the entrepreneur agent after
  construction it holds no message of role \<^verbatim>\<open>experience\<close>.
\<close>

theorem run_stops_on_empty_tool_calls:
  "run js ag (\<lambda>i. \<lparr>content_of = c, tool_calls = Some []\<rparr>) 3 st =
     (Inl (IndexError ''list index out of range''),
      st\<lparr>memory := add_message (memory st) ''agent''
                      (dumps_thought js \<lparr>content_of = c, tool_calls = Some []\<rparr>)\<rparr>)
   \<and> count_role ''experience''
        (messages (memory (snd (run js (EntrepreneurAgent ''EntrepreneurAI'')
           (\<lambda>i. \<lparr>content_of = c, tool_calls = Some []\<rparr>) 3
           (entrepreneur_init ''AI-powered personal finance app''))))) = 0"
  by (simp add: run_def eval_nat_numeral think_def act_def count_role_def entrepreneur_init_def
      new_history_def add_message_def)


lemma add_message_calls_append:
  "add_message_calls h (xs @ ys) = add_message_calls (add_message_calls h xs) ys"
  by (induction h xs rule: add_message_calls.induct) simp_all

lemma call_raises_Exception:
  assumes "\<And>args w e w'. body h args w = (Inl e, w') \<Longrightarrow> is_Exception e"
    and "call h params w = (Inl e, w')"
  shows "is_Exception e"
proof (cases "bind (params_of h) params")
  case None
  with assms(2) show ?thesis by (auto simp: call_def)
next
  case (Some args)
  with assms(2) have "body h args w = (Inl e, w')" by (simp add: call_def)
  then show ?thesis by (rule assms(1))
qed

lemma execute_action_returns:
  assumes "\<forall>a h args w e w'.
             get_action_map ag a = Some h \<longrightarrow> body h args w = (Inl e, w') \<longrightarrow> is_Exception e"
  shows "\<exists>r w' evs. execute_action (get_action_map ag) action params w = (Inr r, w', evs)"
proof (cases "get_action_map ag action")
  case None
  then show ?thesis by (simp add: execute_action_unfold)
next
  case (Some h)
  have "\<And>args w e w'. body h args w = (Inl e, w') \<Longrightarrow> is_Exception e"
    using assms Some by blast
  then have exc: "\<And>p w e w'. call h p w = (Inl e, w') \<Longrightarrow> is_Exception e"
    by (rule call_raises_Exception)
  obtain res1 w1 where c1: "call h params w = (res1, w1)"
    by (cases "call h params w")
  show ?thesis
  proof (cases res1)
    case (Inr r)
    with Some c1 show ?thesis by (simp add: execute_action_unfold)
  next
    case (Inl e)
    with c1 exc have e: "is_Exception e" by blast
    show ?thesis
    proof (cases "\<exists>te. e = TypeError te")
      case False
      with Some c1 Inl e show ?thesis
        by (cases e) (simp_all add: execute_action_unfold)
    next
      case True
      then obtain te where te: "e = TypeError te" by blast
      show ?thesis
      proof (cases "map_parameters action params")
        case None
        with Some c1 Inl te show ?thesis by (simp add: execute_action_unfold)
      next
        case mapped: (Some mp)
        obtain res2 w2 where c2: "call h mp w1 = (res2, w2)"
          by (cases "call h mp w1")
        show ?thesis
        proof (cases res2)
          case (Inr r)
          with Some c1 Inl te mapped c2 show ?thesis by (simp add: execute_action_unfold)
        next
          case inl2: (Inl e2)
          with c2 exc have "is_Exception e2" by blast
          with Some c1 Inl te mapped c2 inl2 show ?thesis by (simp add: execute_action_unfold)
        qed
      qed
    qed
  qed
qed

lemma act_returns:
  assumes "\<forall>a h args w e w'.
             get_action_map ag a = Some h \<longrightarrow> body h args w = (Inl e, w') \<longrightarrow> is_Exception e"
    and "tool_calls t \<noteq> Some []"
  shows "\<exists>result st'. act ag t st = (Inr result, st') \<and>
           memory st' = add_message (memory st) ''environment'' (''Action result: '' @ result)"
proof (cases "tool_calls t")
  case None
  then show ?thesis by (simp add: act_def)
next
  case (Some calls)
  with assms(2) obtain tc rest where calls: "calls = tc # rest"
    by (cases calls) auto
  let ?f = "case tc of Some f \<Rightarrow> f | None \<Rightarrow> \<lparr>fn_name = None, fn_arguments = None\<rparr>"
  obtain r w' evs where
    "execute_action (get_action_map ag) (case fn_name ?f of Some n \<Rightarrow> n | None \<Rightarrow> [])
       (case fn_arguments ?f of Some a \<Rightarrow> a | None \<Rightarrow> []) (attrs st) = (Inr r, w', evs)"
    using execute_action_returns [OF assms(1)] by blast
  then show ?thesis
    using Some calls by (simp add: act_def Let_def)
qed

text \<open>
  When no handler raises outside \<^verbatim>\<open>Exception\<close> and no thought has an empty \<^verbatim>\<open>tool_calls\<close>
  list, the loop finishes all \<open>n\<close> iterations: the memory receives \<open>3 * n\<close> appends,
  \<open>n\<close> of them with role \<^verbatim>\<open>experience\<close>.
\<close>

lemma run_from_completes:
  assumes "\<forall>a h args w e w'.
             get_action_map ag a = Some h \<longrightarrow> body h args w = (Inl e, w') \<longrightarrow> is_Exception e"
    and "\<forall>j. tool_calls (gen j) \<noteq> Some []"
  shows "\<exists>st' calls. run_from js ag gen i n st = (Inr (), st') \<and>
           memory st' = add_message_calls (memory st) calls \<and>
           length calls = 3 * n \<and>
           length (filter (\<lambda>rc. fst rc = ''experience'') calls) = n"
proof (induction n arbitrary: i st)
  case 0
  show ?case by (rule exI [of _ st], rule exI [of _ "[]"]) simp
next
  case (Suc n)
  let ?st1 = "st\<lparr>memory := add_message (memory st) ''agent'' (dumps_thought js (gen i))\<rparr>"
  have "tool_calls (gen i) \<noteq> Some []"
    using assms(2) by blast
  from act_returns [OF assms(1) this, of ?st1]
  obtain result st2 where act: "act ag (gen i) ?st1 = (Inr result, st2)"
    and mem2: "memory st2 = add_message (memory ?st1) ''environment'' (''Action result: '' @ result)"
    by blast
  let ?st3 = "learn js (gen i) result st2"
  from Suc.IH [of "Suc i" ?st3]
  obtain st' calls where rest: "run_from js ag gen (Suc i) n ?st3 = (Inr (), st')"
    and mem: "memory st' = add_message_calls (memory ?st3) calls"
    and len: "length calls = 3 * n"
    and cnt: "length (filter (\<lambda>rc. fst rc = ''experience'') calls) = n"
    by blast
  let ?first = "[(''agent'', dumps_thought js (gen i)),
                 (''environment'', ''Action result: '' @ result),
                 (''experience'', dumps_experience js (gen i) result)]"
  have "run_from js ag gen i (Suc n) st = (Inr (), st')"
    using act rest by (simp add: think_def)
  moreover have "memory st' = add_message_calls (memory st) (?first @ calls)"
    using mem mem2 by (simp add: learn_def)
  moreover have "length (?first @ calls) = 3 * Suc n"
    using len by simp
  moreover have "length (filter (\<lambda>rc. fst rc = ''experience'') (?first @ calls)) = Suc n"
    using cnt by simp
  ultimately show ?case
    by blast
qed

lemma run_completes:
  assumes "\<forall>a h args w e w'.
             get_action_map ag a = Some h \<longrightarrow> body h args w = (Inl e, w') \<longrightarrow> is_Exception e"
    and "\<forall>j. tool_calls (gen j) \<noteq> Some []"
  shows "\<exists>st' calls. run js ag gen k st = (Inr (), st') \<and>
           memory st' = add_message_calls (memory st) calls \<and>
           length calls = 3 * nat k \<and>
           length (filter (\<lambda>rc. fst rc = ''experience'') calls) = nat k"
  unfolding run_def by (rule run_from_completes [OF assms])

end
